theory Spec2Isabelle
  imports Main "HOL-Library.Char_ord" "HOL-Library.List_Lexorder"
begin

section \<open>Python values and errors\<close>

text \<open>
  The script \<^verbatim>\<open>preproc.py\<close> is Python. The values its helper functions receive are
  dynamically typed, so they are modelled by a datatype of Python values; a raised exception
  is the left injection of a sum.
\<close>

datatype pyval =
    PNone
  | PInt int
  | PStr string
  | PTuple "pyval list"
  | PList "pyval list"

datatype py_error =
    IndexError
  | IOError string
  | OverflowError
  | Exception string

text \<open>\<^verbatim>\<open>isinstance(v, list)\<close>.\<close>

fun isinstance_list :: "pyval \<Rightarrow> bool" where
  "isinstance_list (PList xs) = True"
| "isinstance_list v = False"

text \<open>
  Subscription \<^verbatim>\<open>xs[i]\<close> of a list or tuple by an integer. From \<open>0\<close> up to the length
  the index counts from the front, from \<open>-1\<close> down to minus the length from the back;
  any other index raises \<^verbatim>\<open>IndexError\<close>.
\<close>

definition getitem :: "'a list \<Rightarrow> int \<Rightarrow> py_error + 'a" where
  "getitem xs i =
     (if 0 \<le> i \<and> i < int (length xs) then Inr (xs ! nat i)
      else if i < 0 \<and> - int (length xs) \<le> i then Inr (xs ! nat (int (length xs) + i))
      else Inl IndexError)"

section \<open>Utility functions\<close>

text \<open>
  \<^verbatim>\<open>
  def pickfirst(files):
      if isinstance(files, list):
          return files[0]
      else:
          return files
  \<close>
\<close>

definition pickfirst :: "pyval \<Rightarrow> py_error + pyval" where
  "pickfirst files =
     (case files of
        PList xs \<Rightarrow> getitem xs 0
      | _ \<Rightarrow> Inr files)"

text \<open>
  \<^verbatim>\<open>str.lower()\<close> on the letters of the policy keywords: \<^verbatim>\<open>A\<close> to \<^verbatim>\<open>Z\<close> become
  \<^verbatim>\<open>a\<close> to \<^verbatim>\<open>z\<close>, every other character stays.
\<close>

definition lower_char :: "char \<Rightarrow> char" where
  "lower_char c =
     (case map_of (zip ''ABCDEFGHIJKLMNOPQRSTUVWXYZ'' ''abcdefghijklmnopqrstuvwxyz'') c of
        None \<Rightarrow> c
      | Some l \<Rightarrow> l)"

definition lower :: "string \<Rightarrow> string" where
  "lower s = map lower_char s"

text \<open>
  What \<^verbatim>\<open>pickvol\<close> reads besides its arguments, and the platform it runs on.
  \<^verbatim>\<open>load(f).get_shape()\<close> is nibabel's: it opens the image file \<^verbatim>\<open>f\<close> and returns
  the tuple of its dimensions, or raises. \<^verbatim>\<open>true_division\<close> says what the interpreter's
  \<^verbatim>\<open>/\<close> does on two ints: floor division (Python 2, \<^verbatim>\<open>False\<close>) or true division
  (Python 3, \<^verbatim>\<open>True\<close>). \<^verbatim>\<open>rounded_ceil_half\<close> is what \<^verbatim>\<open>int(np.ceil(n/2))\<close> gives
  for an \<open>n\<close> of magnitude \<open>2^53\<close> or more, where a float64 no longer holds every
  integer: a rounded value or an error, by the arithmetic of the interpreter and of numpy,
  neither of which is in the repository.
\<close>

record environment =
  load_get_shape :: "string \<Rightarrow> py_error + int list"
  true_division :: bool
  rounded_ceil_half :: "int \<Rightarrow> py_error + int"

text \<open>
  \<^verbatim>\<open>int(np.ceil(n/2))\<close>. Below \<open>2^53\<close> in magnitude every step is exact: with floor
  division the quotient is an integer already and the ceiling keeps it; with true
  division the quotient is the exact half and the ceiling rounds it up.
\<close>

definition ceil_half :: "environment \<Rightarrow> int \<Rightarrow> py_error + int" where
  "ceil_half env n =
     (if \<bar>n\<bar> < 2 ^ 53 then Inr (if true_division env then (n + 1) div 2 else n div 2)
      else rounded_ceil_half env n)"

text \<open>
  \<^verbatim>\<open>
  def pickvol(filenames, fileidx, which):
      from nibabel import load
      import numpy as np
      if which.lower() == 'first':
          idx = 0
      elif which.lower() == 'middle':
          idx = int(np.ceil(load(filenames[fileidx]).get_shape()[3]/2))
      else:
          raise Exception('unknown value for volume selection : %s' % which)
      return idx
  \<close>
  The two imports are of packages the pipeline engine imported at the top of the script
  itself depends on; they are taken to succeed.
\<close>

definition pickvol :: "environment \<Rightarrow> string list \<Rightarrow> int \<Rightarrow> string \<Rightarrow> py_error + int" where
  "pickvol env filenames fileidx which =
     (if lower which = ''first'' then Inr 0
      else if lower which = ''middle'' then
        (case getitem filenames fileidx of
           Inl e \<Rightarrow> Inl e
         | Inr f \<Rightarrow>
             (case load_get_shape env f of
                Inl e \<Rightarrow> Inl e
              | Inr shape \<Rightarrow>
                  (case getitem shape 3 of
                     Inl e \<Rightarrow> Inl e
                   | Inr n \<Rightarrow> ceil_half env n)))
      else Inl (Exception (''unknown value for volume selection : '' @ which)))"



section \<open>Paths and subjects\<close>

text \<open>
  \<^verbatim>\<open>
  datadir = '/home/brain/bart/data'
  repodir = '/home/brain/bart/fmri-repro'
  figdir = '%s/fig' % (repodir)
  dotdir = '%s/dot' % (repodir)
  \<close>
\<close>

definition datadir :: string where
  "datadir = ''/home/brain/bart/data''"

definition repodir :: string where
  "repodir = ''/home/brain/bart/fmri-repro''"

definition figdir :: string where
  "figdir = repodir @ ''/fig''"

definition dotdir :: string where
  "dotdir = repodir @ ''/dot''"

text \<open>
  \<^verbatim>\<open>glob.glob(os.path.join(datadir, 'sub*'))\<close>. The file system is an input of the
  script: \<open>listing\<close> is what \<^verbatim>\<open>os.listdir(datadir)\<close> holds (no names when the directory
  does not exist), in the order the file system gives them. The pattern \<^verbatim>\<open>sub*\<close> matches
  the names that start with \<^verbatim>\<open>sub\<close>, and glob returns each joined to the directory.
\<close>

definition matches_sub :: "string \<Rightarrow> bool" where
  "matches_sub name = (take 3 name = ''sub'')"

definition glob_sub :: "string list \<Rightarrow> string list" where
  "glob_sub listing = map (\<lambda>name. datadir @ ''/'' @ name) (filter matches_sub listing)"

text \<open>
  \<^verbatim>\<open>s.split(sep)\<close> for a separator of one character: the pieces between the separators,
  never an empty list.
\<close>

fun str_split :: "char \<Rightarrow> string \<Rightarrow> string list" where
  "str_split sep [] = [[]]"
| "str_split sep (c # cs) =
     (if c = sep then [] # str_split sep cs
      else (case str_split sep cs of
              [] \<Rightarrow> [[c]]
            | w # ws \<Rightarrow> (c # w) # ws))"

text \<open>
  \<^verbatim>\<open>
  subjdirs = sorted(glob.glob(os.path.join(datadir, 'sub*')))
  subjects = [path.split(os.path.sep)[-1] for path in subjdirs]
  subjects = subjects[:1]
  \<close>
  Python compares strings character by character, a proper prefix first: the
  lexicographic order of \<open>string\<close>. The index \<^verbatim>\<open>[-1]\<close> is the last piece of a list that
  is never empty.
\<close>

definition subjdirs :: "string list \<Rightarrow> string list" where
  "subjdirs listing = sort (glob_sub listing)"

definition subjects :: "string list \<Rightarrow> string list" where
  "subjects listing = take 1 (map (\<lambda>path. last (str_split CHR ''/'' path)) (subjdirs listing))"

section \<open>The pipeline\<close>

text \<open>
  The twelve nodes the script creates, by the names of the variables that hold them, and
  the \<^verbatim>\<open>name=\<close> each is given.
\<close>

datatype node =
    Infosource
  | Datasource
  | Img2float
  | Extract_ref
  | Motion_correct
  | Skull_strip
  | Coregister
  | Normalize_affine
  | Normalize_warp
  | Apply_warp
  | Smooth
  | Datasink

fun node_name :: "node \<Rightarrow> string" where
  "node_name Infosource = ''infosource''"
| "node_name Datasource = ''datasource''"
| "node_name Img2float = ''img2float''"
| "node_name Extract_ref = ''extractref''"
| "node_name Motion_correct = ''realign''"
| "node_name Skull_strip = ''skull_strip''"
| "node_name Coregister = ''coregister''"
| "node_name Normalize_affine = ''normalize_affine''"
| "node_name Normalize_warp = ''normalize_warp''"
| "node_name Apply_warp = ''apply_warp''"
| "node_name Smooth = ''smooth''"
| "node_name Datasink = ''datasink''"

text \<open>
  A connection is one call \<^verbatim>\<open>preproc.connect(src, out, dst, inp)\<close>; where the script
  writes \<^verbatim>\<open>(out, pickfirst)\<close> for \<^verbatim>\<open>out\<close>, the edge carries that function.
\<close>

datatype selector = Direct | Pickfirst

record connection =
  src :: node
  src_port :: string
  sel :: selector
  dst :: node
  dst_port :: string

definition conn :: "node \<Rightarrow> string \<Rightarrow> selector \<Rightarrow> node \<Rightarrow> string \<Rightarrow> connection" where
  "conn s sp f d dp = \<lparr>src = s, src_port = sp, sel = f, dst = d, dst_port = dp\<rparr>"

text \<open>The eighteen \<^verbatim>\<open>preproc.connect\<close> calls of the script, in the order it makes them.\<close>

definition preproc_connections :: "connection list" where
  "preproc_connections =
    [conn Infosource ''subject_id'' Direct Datasource ''subject_id'',
     conn Datasource ''bold'' Direct Img2float ''in_file'',
     conn Img2float ''out_file'' Direct Extract_ref ''in_file'',
     conn Img2float ''out_file'' Direct Motion_correct ''in_file'',
     conn Extract_ref ''roi_file'' Pickfirst Motion_correct ''ref_file'',
     conn Datasource ''anat'' Direct Skull_strip ''in_file'',
     conn Extract_ref ''roi_file'' Pickfirst Coregister ''reference'',
     conn Skull_strip ''out_file'' Direct Coregister ''in_file'',
     conn Coregister ''out_file'' Direct Normalize_affine ''in_file'',
     conn Coregister ''out_file'' Direct Normalize_warp ''in_file'',
     conn Normalize_affine ''out_matrix_file'' Direct Normalize_warp ''affine_file'',
     conn Motion_correct ''out_file'' Direct Apply_warp ''in_file'',
     conn Normalize_affine ''out_matrix_file'' Direct Apply_warp ''premat'',
     conn Normalize_warp ''field_file'' Direct Apply_warp ''field_file'',
     conn Apply_warp ''out_file'' Direct Smooth ''in_file'',
     conn Infosource ''subject_id'' Direct Datasink ''container'',
     conn Smooth ''out_file'' Direct Datasink ''smooth_func'',
     conn Normalize_warp ''warped_file'' Direct Datasink ''norm_anat'']"

text \<open>The edge relation on nodes, the destination ports, and the nodes that take part.\<close>

definition edge :: "connection \<Rightarrow> node \<times> node" where
  "edge c = (src c, dst c)"

definition destination :: "connection \<Rightarrow> node \<times> string" where
  "destination c = (dst c, dst_port c)"

definition graph_nodes :: "connection list \<Rightarrow> node list" where
  "graph_nodes cs = remdups (concat (map (\<lambda>c. [src c, dst c]) cs))"

text \<open>\<^verbatim>\<open>infosource.iterables = [('subject_id', subjects)]\<close>.\<close>

definition infosource_iterables :: "string list \<Rightarrow> (string \<times> string list) list" where
  "infosource_iterables listing = [(''subject_id'', subjects listing)]"

section \<open>The engine's build-time checks\<close>

text \<open>
  The pipeline engine (\<^verbatim>\<open>nipype.pipeline.engine\<close>) is a library the script imports; its
  code is not part of the repository. What \<^verbatim>\<open>connect\<close> and the validation of the graph
  check is taken from the specification of the engine.
\<close>

datatype build_error =
    DuplicateInputError node string
  | UnknownPortError node string
  | CycleDetectedError "node list"

text \<open>
  Modelled from the spec: the engine's \<^verbatim>\<open>connect\<close>, which is not in the repository.
  ``\<^verbatim>\<open>connect\<close> fails with \<^verbatim>\<open>DuplicateInputError\<close> if \<^verbatim>\<open>dstPort\<close> already has a
  non-aggregating edge, and with \<^verbatim>\<open>UnknownPortError\<close> if either named port is undeclared
  on its node.'' The ports the wrapped tools declare are not in the repository either:
  \<open>outs\<close> and \<open>ins\<close> say which output and input ports each node declares. The script
  declares no aggregating port.
\<close>

definition connect ::
  "(node \<Rightarrow> string \<Rightarrow> bool) \<Rightarrow> (node \<Rightarrow> string \<Rightarrow> bool) \<Rightarrow>
   connection list \<Rightarrow> connection \<Rightarrow> build_error + connection list" where
  "connect outs ins g c =
     (if destination c \<in> set (map destination g) then Inl (DuplicateInputError (dst c) (dst_port c))
      else if \<not> outs (src c) (src_port c) then Inl (UnknownPortError (src c) (src_port c))
      else if \<not> ins (dst c) (dst_port c) then Inl (UnknownPortError (dst c) (dst_port c))
      else Inr (g @ [c]))"

text \<open>The calls one after the other; the first that fails ends the construction.\<close>

fun connect_all ::
  "(node \<Rightarrow> string \<Rightarrow> bool) \<Rightarrow> (node \<Rightarrow> string \<Rightarrow> bool) \<Rightarrow>
   connection list \<Rightarrow> connection list \<Rightarrow> build_error + connection list" where
  "connect_all outs ins g [] = Inr g"
| "connect_all outs ins g (c # cs) =
     (case connect outs ins g c of
        Inl e \<Rightarrow> Inl e
      | Inr g' \<Rightarrow> connect_all outs ins g' cs)"

fun is_duplicate_input_error :: "build_error + 'a \<Rightarrow> bool" where
  "is_duplicate_input_error (Inl (DuplicateInputError n p)) = True"
| "is_duplicate_input_error r = False"

text \<open>
  Modelled from the spec: the acyclicity validation of the engine's \<^verbatim>\<open>freeze\<close>, which
  is not in the repository. ``\<^verbatim>\<open>freeze()\<close> validates acyclicity (fails with
  \<^verbatim>\<open>CycleDetectedError\<close>, reporting the participating node names)''. The validation
  removes, again and again, a node none of whose producers is left; when nodes are left
  and each still has a producer among them, they hold a cycle and are reported. The nodes
  in the order of their removal are a topological order.
\<close>

definition has_producer :: "('a \<times> 'a) list \<Rightarrow> 'a list \<Rightarrow> 'a \<Rightarrow> bool" where
  "has_producer es ns n = list_ex (\<lambda>e. snd e = n \<and> fst e \<in> set ns) es"

definition ready :: "('a \<times> 'a) list \<Rightarrow> 'a list \<Rightarrow> 'a list" where
  "ready es ns = filter (\<lambda>n. \<not> has_producer es ns n) ns"

function topological_order :: "('a \<times> 'a) list \<Rightarrow> 'a list \<Rightarrow> 'a list + 'a list" where
  "topological_order es ns =
     (if ns = [] then Inr []
      else (case ready es ns of
              [] \<Rightarrow> Inl ns
            | r # rs \<Rightarrow>
                (case topological_order es (removeAll r ns) of
                   Inl cyc \<Rightarrow> Inl cyc
                 | Inr order \<Rightarrow> Inr (r # order))))"
  by pat_completeness auto
termination
proof (relation "measure (\<lambda>(es, ns). length ns)")
  show "wf (measure (\<lambda>(es, ns). length ns))"
    by simp
next
  fix es :: "('a \<times> 'a) list" and ns :: "'a list" and r rs
  assume "ready es ns = r # rs"
  then have "r \<in> set (ready es ns)"
    by simp
  then have "r \<in> set ns"
    by (simp add: ready_def)
  then show "((es, removeAll r ns), (es, ns)) \<in> measure (\<lambda>(es, ns). length ns)"
    by (simp add: length_removeAll_less)
qed

declare topological_order.simps [simp del]

definition validate_acyclic :: "connection list \<Rightarrow> build_error + node list" where
  "validate_acyclic g =
     (case topological_order (map edge g) (graph_nodes g) of
        Inl cyc \<Rightarrow> Inl (CycleDetectedError cyc)
      | Inr order \<Rightarrow> Inr order)"

text \<open>
  What a topological order of a graph is: every node once, and every edge from an earlier
  node to a later one.
\<close>

fun position :: "'a list \<Rightarrow> 'a \<Rightarrow> nat" where
  "position [] x = 0"
| "position (y # ys) x = (if x = y then 0 else Suc (position ys x))"

definition is_topological_order :: "('a \<times> 'a) list \<Rightarrow> 'a list \<Rightarrow> 'a list \<Rightarrow> bool" where
  "is_topological_order es ns order =
     (distinct order \<and> set order = set ns \<and>
      list_all (\<lambda>e. position order (fst e) < position order (snd e)) es)"

section \<open>The statements at module level\<close>

text \<open>
  Before the command line is looked at, the script runs its statements at module level.
  Those that call into a library or the operating system may raise, and an exception
  there ends the script before the graph is complete: the imports, the search for the
  subjects, the creation of the workflow and of each node (with the interface it wraps),
  the assignments to the inputs and iterables of a node (the engine validates what is
  assigned), and the \<^verbatim>\<open>connect\<close> calls.
\<close>

datatype statement =
    Import string
  | Glob string
  | New_workflow string
  | New_node node
  | Set_iterables
  | Set_input node string
  | Connect connection

text \<open>The statements of the script, in the order of its lines.\<close>

definition preproc_statements :: "statement list" where
  "preproc_statements =
    [Import ''os'', Import ''sys'', Import ''glob'', Import ''shutil'',
     Import ''nipype.interfaces.fsl'', Import ''nipype.interfaces.utility'',
     Import ''nipype.pipeline.engine'', Import ''nipype.interfaces.io'',
     Glob (datadir @ ''/sub*''),
     New_workflow ''preproc'',
     New_node Infosource,
     Set_iterables,
     New_node Datasource,
     Set_input Datasource ''base_directory'',
     Set_input Datasource ''template'',
     Set_input Datasource ''field_template'',
     Set_input Datasource ''template_args'',
     Set_input Datasource ''sorted'',
     Connect (conn Infosource ''subject_id'' Direct Datasource ''subject_id''),
     New_node Img2float,
     Connect (conn Datasource ''bold'' Direct Img2float ''in_file''),
     New_node Extract_ref,
     Connect (conn Img2float ''out_file'' Direct Extract_ref ''in_file''),
     New_node Motion_correct,
     Connect (conn Img2float ''out_file'' Direct Motion_correct ''in_file''),
     Connect (conn Extract_ref ''roi_file'' Pickfirst Motion_correct ''ref_file''),
     New_node Skull_strip,
     Connect (conn Datasource ''anat'' Direct Skull_strip ''in_file''),
     New_node Coregister,
     Connect (conn Extract_ref ''roi_file'' Pickfirst Coregister ''reference''),
     Connect (conn Skull_strip ''out_file'' Direct Coregister ''in_file''),
     New_node Normalize_affine,
     Connect (conn Coregister ''out_file'' Direct Normalize_affine ''in_file''),
     New_node Normalize_warp,
     Connect (conn Coregister ''out_file'' Direct Normalize_warp ''in_file''),
     Connect (conn Normalize_affine ''out_matrix_file'' Direct Normalize_warp ''affine_file''),
     New_node Apply_warp,
     Connect (conn Motion_correct ''out_file'' Direct Apply_warp ''in_file''),
     Connect (conn Normalize_affine ''out_matrix_file'' Direct Apply_warp ''premat''),
     Connect (conn Normalize_warp ''field_file'' Direct Apply_warp ''field_file''),
     New_node Smooth,
     Connect (conn Apply_warp ''out_file'' Direct Smooth ''in_file''),
     New_node Datasink,
     Set_input Datasink ''base_directory'',
     Connect (conn Infosource ''subject_id'' Direct Datasink ''container''),
     Connect (conn Smooth ''out_file'' Direct Datasink ''smooth_func''),
     Connect (conn Normalize_warp ''warped_file'' Direct Datasink ''norm_anat'')]"

text \<open>
  What the statements have built so far: the edges of the workflow and the iterables of
  \<^verbatim>\<open>infosource\<close>. A \<^verbatim>\<open>connect\<close> call adds its edge, the assignment of the iterables
  attaches the subjects; the other statements add nothing to either.
\<close>

record construction =
  connected :: "connection list"
  axes :: "(string \<times> string list) list"

fun step :: "string list \<Rightarrow> statement \<Rightarrow> construction \<Rightarrow> construction" where
  "step listing (Connect c) b = b\<lparr>connected := connected b @ [c]\<rparr>"
| "step listing Set_iterables b = b\<lparr>axes := infosource_iterables listing\<rparr>"
| "step listing s b = b"

text \<open>
  The statements one after the other; \<open>ok\<close> says which succeed. The flag of the result
  says whether the last statement was reached; the first statement that raises ends the
  run there.
\<close>

fun execute ::
  "(statement \<Rightarrow> bool) \<Rightarrow> string list \<Rightarrow> statement list \<Rightarrow> construction \<Rightarrow>
   construction \<times> bool" where
  "execute ok listing [] b = (b, True)"
| "execute ok listing (s # ss) b =
     (if ok s then execute ok listing ss (step listing s b) else (b, False))"

section \<open>The command line\<close>

text \<open>
  What the script does to the world outside it once the graph is built, in the order it
  does it. Each is a call into a library or the operating system that may raise;
  \<open>ok\<close> says which calls succeed. An exception nothing catches ends the interpreter
  with exit status 1.
\<close>

datatype effect =
    Write_graph string string
  | Rename string string
  | Run_workflow
  | Rmtree string

fun perform :: "(effect \<Rightarrow> bool) \<Rightarrow> effect list \<Rightarrow> effect list \<times> nat" where
  "perform ok [] = ([], 0)"
| "perform ok (e # es) =
     (if ok e then (case perform ok es of (done, status) \<Rightarrow> (e # done, status))
      else ([e], 1))"

text \<open>
  \<^verbatim>\<open>
  def make_schemata(preproc):
    preproc.write_graph('preproc', graph2use='orig')
    os.rename('preproc.dot', '%s/preproc.dot' % dotdir)
    os.rename('preproc_detailed.dot', '%s/preproc_detailed.dot' % dotdir)
    os.rename('preproc.dot.png', '%s/preproc.dot.png' % figdir)
    os.rename('preproc_detailed.dot.png', '%s/preproc_detailed.dot.png' % figdir)

  def run_preproc(preproc):
    preproc.run()
    shutil.rmtree('preproc')
  \<close>
\<close>

definition make_schemata :: "effect list" where
  "make_schemata =
    [Write_graph ''preproc'' ''orig'',
     Rename ''preproc.dot'' (dotdir @ ''/preproc.dot''),
     Rename ''preproc_detailed.dot'' (dotdir @ ''/preproc_detailed.dot''),
     Rename ''preproc.dot.png'' (figdir @ ''/preproc.dot.png''),
     Rename ''preproc_detailed.dot.png'' (figdir @ ''/preproc_detailed.dot.png'')]"

definition run_preproc :: "effect list" where
  "run_preproc = [Run_workflow, Rmtree ''preproc'']"

text \<open>
  Modelled from the spec: the report of the engine's \<^verbatim>\<open>run\<close>, which is not in the
  repository. ``\<^verbatim>\<open>run\<close> returns once every reachable instance is either done, cached,
  or permanently failed; its RunResult enumerates per-instance status'', the statuses
  being DONE, CACHED, FAILED(reason), CANCELLED and SKIPPED(UpstreamFailure).
\<close>

datatype instance_status =
    DONE
  | CACHED
  | FAILED string
  | CANCELLED
  | SKIPPED

fun is_failed :: "instance_status \<Rightarrow> bool" where
  "is_failed (FAILED reason) = True"
| "is_failed status = False"

text \<open>
  The world one run of the script meets: the names in the data directory, which
  statements at module level and which calls of the command line succeed, and the
  statuses the instances of the workflow end with when it is run. The script calls
  \<^verbatim>\<open>preproc.run()\<close> as a statement: what the call returns is dropped.
\<close>

record world =
  datadir_listing :: "string list"
  statement_succeeds :: "statement \<Rightarrow> bool"
  effect_succeeds :: "effect \<Rightarrow> bool"
  run_result :: "instance_status list"

text \<open>
  \<^verbatim>\<open>
  if __name__ == '__main__':
    if len(sys.argv) > 1:
      if sys.argv[1] == 'plot':
        make_schemata(preproc)
      elif sys.argv[1] == 'run':
        run_preproc(preproc)
  \<close>
\<close>

definition main :: "world \<Rightarrow> string list \<Rightarrow> effect list \<times> nat" where
  "main w argv =
     (if length argv > 1 then
        (if argv ! 1 = ''plot'' then perform (effect_succeeds w) make_schemata
         else if argv ! 1 = ''run'' then perform (effect_succeeds w) run_preproc
         else ([], 0))
      else ([], 0))"

text \<open>
  One run of the script: the statements at module level, then the command line. When a
  statement at module level raises, the script ends there with exit status 1 and the
  command line is never looked at. The result holds the graph and the iterables as far
  as they were built, the effects attempted, and the exit status.
\<close>

record outcome =
  graph :: "connection list"
  iterables :: "(string \<times> string list) list"
  effects :: "effect list"
  exit_status :: nat

definition script :: "world \<Rightarrow> string list \<Rightarrow> outcome" where
  "script w argv =
     (case execute (statement_succeeds w) (datadir_listing w) preproc_statements
             \<lparr>connected = [], axes = []\<rparr> of
        (b, finished) \<Rightarrow>
          if finished then
            (case main w argv of
               (done, status) \<Rightarrow>
                 \<lparr>graph = connected b, iterables = axes b, effects = done,
                  exit_status = status\<rparr>)
          else \<lparr>graph = connected b, iterables = axes b, effects = [], exit_status = 1\<rparr>)"

section \<open>Concrete inputs\<close>

text \<open>
  Two states of the file system for \<^verbatim>\<open>pickvol\<close>, under an interpreter with floor
  division: the image \<^verbatim>\<open>bold.nii.gz\<close> with 101 volumes, and the same file after it has
  been rewritten with 20 volumes. No other image exists. (No dimension comes near
  \<open>2^53\<close>: what the arithmetic gives there plays no part.)
\<close>

definition image_101 :: environment where
  "image_101 =
     \<lparr>load_get_shape =
        (\<lambda>f. if f = ''bold.nii.gz'' then Inr [64, 64, 30, 101] else Inl (IOError f)),
      true_division = False,
      rounded_ceil_half = (\<lambda>n. Inl OverflowError)\<rparr>"



text \<open>The first state again, under an interpreter with true division.\<close>

definition image_101_true_division :: environment where
  "image_101_true_division =
     \<lparr>load_get_shape =
        (\<lambda>f. if f = ''bold.nii.gz'' then Inr [64, 64, 30, 101] else Inl (IOError f)),
      true_division = True,
      rounded_ceil_half = (\<lambda>n. Inl OverflowError)\<rparr>"

text \<open>
  Worlds for the script. In \<open>calm\<close> two subjects are on disk and every call succeeds.
  In \<open>failed_quietly\<close> an instance of the workflow fails and the engine's run returns
  its report, as the specification of the engine has it. In \<open>failed_raising\<close> the run
  raises for the failed instance. In \<open>no_datadir\<close> the data directory is missing, and
  the engine refuses it as the base directory of \<^verbatim>\<open>datasource\<close>.
\<close>

definition calm :: world where
  "calm =
     \<lparr>datadir_listing = [''sub002'', ''notes.txt'', ''sub001''],
      statement_succeeds = (\<lambda>s. True),
      effect_succeeds = (\<lambda>e. True),
      run_result = [DONE, DONE, DONE]\<rparr>"

definition failed_quietly :: world where
  "failed_quietly =
     \<lparr>datadir_listing = [''sub002'', ''notes.txt'', ''sub001''],
      statement_succeeds = (\<lambda>s. True),
      effect_succeeds = (\<lambda>e. True),
      run_result = [DONE, FAILED ''realign'', SKIPPED]\<rparr>"

definition failed_raising :: world where
  "failed_raising =
     \<lparr>datadir_listing = [''sub002'', ''notes.txt'', ''sub001''],
      statement_succeeds = (\<lambda>s. True),
      effect_succeeds = (\<lambda>e. e \<noteq> Run_workflow),
      run_result = [DONE, FAILED ''realign'', SKIPPED]\<rparr>"

definition no_datadir :: world where
  "no_datadir =
     \<lparr>datadir_listing = [],
      statement_succeeds = (\<lambda>s. s \<noteq> Set_input Datasource ''base_directory''),
      effect_succeeds = (\<lambda>e. True),
      run_result = []\<rparr>"

text \<open>Every port the script names is declared.\<close>

definition declared :: "node \<Rightarrow> string \<Rightarrow> bool" where
  "declared n p = True"

section \<open>Properties of the selectors\<close>

lemma getitem_first: "getitem (x # xs) 0 = Inr x"
  by (simp add: getitem_def)

lemma getitem_empty: "getitem [] i = Inl IndexError"
  by (simp add: getitem_def)

lemma lower_literals:
  "lower ''FIRST'' = ''first''"
  "lower ''Middle'' = ''middle''"
  "lower ''middle'' = ''middle''"
  "lower ''Last'' = ''last''"
  "lower ''INDEX(3)'' = ''index(3)''"
  by (simp_all add: lower_def lower_char_def)

text \<open>
  C3. For every non-empty list \<open>xs\<close>, \<open>pickfirst\<close> returns its first element
  \<open>xs[0]\<close>; for every value that is not a list, \<open>pickfirst\<close> returns the value
  unchanged.
\<close>

theorem pickfirst_selects:
  "(xs \<noteq> [] \<longrightarrow> pickfirst (PList xs) = Inr (xs ! 0)) \<and>
   (\<not> isinstance_list v \<longrightarrow> pickfirst v = Inr v)"
proof (intro conjI impI)
  assume "xs \<noteq> []"
  then obtain y ys where "xs = y # ys"
    by (cases xs) auto
  then show "pickfirst (PList xs) = Inr (xs ! 0)"
    by (simp add: pickfirst_def getitem_first)
next
  assume "\<not> isinstance_list v"
  then show "pickfirst v = Inr v"
    by (cases v) (simp_all add: pickfirst_def)
qed

theorem pickfirst_selects_witness:
  "[PStr ''r1.nii'', PStr ''r2.nii''] \<noteq> [] \<and>
   \<not> isinstance_list (PTuple [PStr ''r1.nii'', PStr ''r2.nii'']) \<and>
   pickfirst (PList [PStr ''r1.nii'', PStr ''r2.nii'']) = Inr (PStr ''r1.nii'') \<and>
   pickfirst (PTuple [PStr ''r1.nii'', PStr ''r2.nii'']) =
     Inr (PTuple [PStr ''r1.nii'', PStr ''r2.nii''])"
  using pickfirst_selects [of "[PStr ''r1.nii'', PStr ''r2.nii'']"
      "PTuple [PStr ''r1.nii'', PStr ''r2.nii'']"]
  by simp

text \<open>
  C9. \<open>pickfirst\<close> applied to the empty list raises \<open>IndexError\<close>: it does not hand
  the empty list on.
\<close>

theorem pickfirst_empty_list:
  "pickfirst (PList []) = Inl IndexError \<and> pickfirst (PList []) \<noteq> Inr (PList [])"
  by (simp add: pickfirst_def getitem_empty)

text \<open>
  C4. For every string \<open>which\<close> whose lower-case form is neither \<open>first\<close> nor
  \<open>middle\<close>, \<open>pickvol\<close> raises an exception whose message ends with \<open>which\<close> itself,
  and returns no index.
\<close>

theorem pickvol_unknown_policy:
  assumes "lower which \<noteq> ''first''" and "lower which \<noteq> ''middle''"
  shows "pickvol env filenames fileidx which =
           Inl (Exception (''unknown value for volume selection : '' @ which))"
  using assms by (simp add: pickvol_def)

theorem pickvol_unknown_policy_witness:
  "lower ''Last'' \<noteq> ''first'' \<and> lower ''Last'' \<noteq> ''middle'' \<and>
   pickvol image_101 [''bold.nii.gz''] 0 ''Last'' =
     Inl (Exception ''unknown value for volume selection : Last'')"
  using pickvol_unknown_policy [of "''Last''" image_101 "[''bold.nii.gz'']" 0]
  by (simp add: lower_literals)

lemma image_101_shape: "load_get_shape image_101 ''bold.nii.gz'' = Inr [64, 64, 30, 101]"
  by (simp add: image_101_def)

lemma ceil_half_exact:
  "\<bar>n\<bar> < 2 ^ 53 \<Longrightarrow>
   ceil_half env n = Inr (if true_division env then (n + 1) div 2 else n div 2)"
  by (simp add: ceil_half_def)

text \<open>
  C5, as the specification states it: the selector resolves each of the policies FIRST,
  MIDDLE and INDEX(n) to a volume index. The code knows the keywords \<open>first\<close> and
  \<open>middle\<close> only; a request for volume 3 is refused.
\<close>

theorem pickvol_index_counterexample:
  "pickvol image_101 [''bold.nii.gz''] 0 ''INDEX(3)'' =
     Inl (Exception ''unknown value for volume selection : INDEX(3)'')"
  by (simp add: pickvol_def lower_literals)

text \<open>
  C5, amended. \<open>pickvol\<close> resolves two policies. Every keyword whose lower-case form is
  \<open>first\<close> gives index 0, whatever the other arguments and the files are. A keyword
  whose lower-case form is \<open>middle\<close> gives half the number \<open>n\<close> of volumes of the
  image \<open>filenames[fileidx]\<close>, when that image loads, has a fourth dimension and \<open>n\<close>
  is below \<open>2^53\<close> in magnitude: \<open>n div 2\<close> where \<open>/\<close> is floor division, and the
  half rounded up, \<open>(n + 1) div 2\<close>, where it is true division. No other keyword gives
  an index: there is no policy for a given volume number.
\<close>

theorem pickvol_policies:
  "(lower which = ''first'' \<longrightarrow> pickvol env filenames fileidx which = Inr 0) \<and>
   (lower which = ''middle'' \<and> getitem filenames fileidx = Inr f \<and>
    load_get_shape env f = Inr shape \<and> getitem shape 3 = Inr n \<and> \<bar>n\<bar> < 2 ^ 53 \<longrightarrow>
      pickvol env filenames fileidx which =
        Inr (if true_division env then (n + 1) div 2 else n div 2)) \<and>
   (pickvol env filenames fileidx which = Inr idx \<longrightarrow>
      lower which = ''first'' \<or> lower which = ''middle'')"
proof (intro conjI impI)
  assume "lower which = ''first''"
  then show "pickvol env filenames fileidx which = Inr 0"
    by (simp add: pickvol_def)
next
  assume "lower which = ''middle'' \<and> getitem filenames fileidx = Inr f \<and>
    load_get_shape env f = Inr shape \<and> getitem shape 3 = Inr n \<and> \<bar>n\<bar> < 2 ^ 53"
  then show "pickvol env filenames fileidx which =
      Inr (if true_division env then (n + 1) div 2 else n div 2)"
    by (simp add: pickvol_def ceil_half_exact)
next
  assume "pickvol env filenames fileidx which = Inr idx"
  then show "lower which = ''first'' \<or> lower which = ''middle''"
    by (auto simp add: pickvol_def split: if_splits)
qed

theorem pickvol_policies_witness:
  "lower ''FIRST'' = ''first'' \<and>
   pickvol image_101 [''bold.nii.gz''] 0 ''FIRST'' = Inr 0 \<and>
   lower ''Middle'' = ''middle'' \<and>
   getitem [''bold.nii.gz''] 0 = Inr ''bold.nii.gz'' \<and>
   load_get_shape image_101 ''bold.nii.gz'' = Inr [64, 64, 30, 101] \<and>
   load_get_shape image_101_true_division ''bold.nii.gz'' = Inr [64, 64, 30, 101] \<and>
   getitem [64, 64, 30, 101] 3 = Inr (101 :: int) \<and>
   \<bar>101 :: int\<bar> < 2 ^ 53 \<and>
   pickvol image_101 [''bold.nii.gz''] 0 ''Middle'' = Inr 50 \<and>
   pickvol image_101_true_division [''bold.nii.gz''] 0 ''Middle'' = Inr 51"
proof -
  have item: "getitem [''bold.nii.gz''] 0 = Inr ''bold.nii.gz''"
    by (simp add: getitem_def)
  have dim: "getitem [64, 64, 30, 101] 3 = Inr (101 :: int)"
    by (simp add: getitem_def)
  have small: "\<bar>101 :: int\<bar> < 2 ^ 53"
    by simp
  have shape3: "load_get_shape image_101_true_division ''bold.nii.gz'' = Inr [64, 64, 30, 101]"
    by (simp add: image_101_true_division_def)
  have first: "pickvol image_101 [''bold.nii.gz''] 0 ''FIRST'' = Inr 0"
    using pickvol_policies [of "''FIRST''" image_101 "[''bold.nii.gz'']" 0]
    by (simp add: lower_literals)
  have floor: "pickvol image_101 [''bold.nii.gz''] 0 ''Middle'' = Inr 50"
    using pickvol_policies [of "''Middle''" image_101 "[''bold.nii.gz'']" 0 "''bold.nii.gz''"
        "[64, 64, 30, 101]" 101] item dim small image_101_shape
    by (simp add: lower_literals image_101_def)
  have true: "pickvol image_101_true_division [''bold.nii.gz''] 0 ''Middle'' = Inr 51"
    using pickvol_policies [of "''Middle''" image_101_true_division "[''bold.nii.gz'']" 0
        "''bold.nii.gz''" "[64, 64, 30, 101]" 101] item dim small shape3
    by (simp add: lower_literals image_101_true_division_def)
  show ?thesis
    using first floor true item dim small shape3 image_101_shape
    by (simp add: lower_literals)
qed




section \<open>Properties of the subject list\<close>

lemma str_split_nonempty: "str_split sep s \<noteq> []"
  by (induction s) (auto split: list.splits)

lemma str_split_no_sep: "sep \<notin> set s \<Longrightarrow> str_split sep s = [s]"
  by (induction s) auto

lemma str_split_append: "str_split sep (s @ sep # t) = str_split sep s @ str_split sep t"
proof (induction s)
  case Nil
  show ?case by simp
next
  case (Cons c s)
  obtain w ws where "str_split sep s = w # ws"
    using str_split_nonempty [of sep s] by (cases "str_split sep s") auto
  with Cons show ?case by simp
qed

lemma last_str_split_join:
  assumes "sep \<notin> set name"
  shows "last (str_split sep (dir @ sep # name)) = name"
  by (simp add: str_split_append str_split_no_sep assms)

lemma prefix_le: "(p @ a \<le> p @ b) = (a \<le> (b :: string))"
  by (induction p) simp_all

lemma insort_map_prefix:
  "insort (p @ x) (map ((@) p) ys) = map ((@) p) (insort x (ys :: string list))"
  by (induction ys) (simp_all add: prefix_le)

lemma sort_map_prefix: "sort (map ((@) p) xs) = map ((@) p) (sort (xs :: string list))"
  by (induction xs) (simp_all add: insort_map_prefix)

text \<open>
  C7, as the specification states it: the \<open>subject_id\<close> axis holds one value for every
  name matching \<open>sub*\<close> under the data directory, in sorted order. With two subjects
  on disk the axis holds one value, where the sorted matching names are two.
\<close>

theorem subjects_counterexample:
  "infosource_iterables [''sub002'', ''sub001''] = [(''subject_id'', [''sub001''])] \<and>
   sort (filter matches_sub [''sub002'', ''sub001'']) = [''sub001'', ''sub002'']"
  by (simp add: infosource_iterables_def subjects_def subjdirs_def glob_sub_def
      matches_sub_def datadir_def)

text \<open>
  C7, amended. The \<open>subject_id\<close> axis attached to \<open>infosource\<close> holds the first, in
  sorted order, of the names matching \<open>sub*\<close> under the data directory, and nothing
  when no name matches: the script cuts the sorted list to its first element, so the graph
  iterates over one subject at most. (A name in a directory holds no \<open>/\<close>.)
\<close>

theorem subjects_first_only:
  assumes "list_all (\<lambda>name. CHR ''/'' \<notin> set name) listing"
  shows "infosource_iterables listing =
           [(''subject_id'', take 1 (sort (filter matches_sub listing)))]"
proof -
  let ?names = "sort (filter matches_sub listing)"
  let ?p = "datadir @ ''/''"
  have "glob_sub listing = map ((@) ?p) (filter matches_sub listing)"
    by (simp add: glob_sub_def)
  then have dirs: "subjdirs listing = map ((@) ?p) ?names"
    by (simp add: subjdirs_def sort_map_prefix)
  have base: "last (str_split CHR ''/'' (?p @ name)) = name" if "name \<in> set ?names" for name
    using that assms last_str_split_join [of "CHR ''/''" name datadir]
    by (auto simp add: list_all_iff)
  have "map (\<lambda>path. last (str_split CHR ''/'' path)) (map ((@) ?p) ?names) =
      map (\<lambda>name. last (str_split CHR ''/'' (?p @ name))) ?names"
    by (simp add: comp_def)
  also have "\<dots> = ?names"
    by (rule map_idI) (rule base)
  finally have "map (\<lambda>path. last (str_split CHR ''/'' path)) (map ((@) ?p) ?names) = ?names" .
  with dirs show ?thesis
    by (simp add: infosource_iterables_def subjects_def take_map)
qed

theorem subjects_first_only_witness:
  "list_all (\<lambda>name. CHR ''/'' \<notin> set name) [''sub002'', ''notes.txt'', ''sub001''] \<and>
   infosource_iterables [''sub002'', ''notes.txt'', ''sub001''] =
     [(''subject_id'', [''sub001''])]"
proof -
  have ok: "list_all (\<lambda>name. CHR ''/'' \<notin> set name) [''sub002'', ''notes.txt'', ''sub001'']"
    by simp
  have "take 1 (sort (filter matches_sub [''sub002'', ''notes.txt'', ''sub001''])) = [''sub001'']"
    by (simp add: matches_sub_def)
  with subjects_first_only [OF ok] ok show ?thesis
    by simp
qed

section \<open>Properties of the command line\<close>

lemma main_plot: "main w (prog # ''plot'' # rest) = perform (effect_succeeds w) make_schemata"
  by (simp add: main_def)

lemma main_run: "main w (prog # ''run'' # rest) = perform (effect_succeeds w) run_preproc"
  by (simp add: main_def)


lemma perform_all: "list_all ok es \<Longrightarrow> perform ok es = (es, 0)"
  by (induction es) simp_all

lemma perform_status: "(snd (perform ok es) = 0) = list_all ok es"
  by (induction es) (auto split: prod.splits)

lemma schemata_paths:
  "make_schemata =
    [Write_graph ''preproc'' ''orig'',
     Rename ''preproc.dot'' ''/home/brain/bart/fmri-repro/dot/preproc.dot'',
     Rename ''preproc_detailed.dot'' ''/home/brain/bart/fmri-repro/dot/preproc_detailed.dot'',
     Rename ''preproc.dot.png'' ''/home/brain/bart/fmri-repro/fig/preproc.dot.png'',
     Rename ''preproc_detailed.dot.png''
       ''/home/brain/bart/fmri-repro/fig/preproc_detailed.dot.png'']"
  by (simp add: make_schemata_def dotdir_def figdir_def repodir_def)

text \<open>
  C8, as the specification states it: the command line has a \<open>build\<close>, a \<open>plan\<close>
  and a \<open>run\<close> operation, \<open>plan\<close> reporting the instance counts, and the exit
  status is non-zero whenever some instance ends FAILED. The script serves \<open>plot\<close> and
  \<open>run\<close>: given \<open>plan\<close> or \<open>build\<close> it attempts nothing, reports nothing and
  ends with status 0. And it drops what the run returns: when an instance has failed and
  the engine's run returns its report, the script deletes the report directory and ends
  with status 0.
\<close>

theorem main_plan_counterexample:
  "main calm [''preproc.py'', ''plan''] = ([], 0) \<and>
   main calm [''preproc.py'', ''build''] = ([], 0) \<and>
   list_ex is_failed (run_result failed_quietly) \<and>
   main failed_quietly [''preproc.py'', ''run''] = ([Run_workflow, Rmtree ''preproc''], 0)"
  by (simp add: main_def run_preproc_def failed_quietly_def)

text \<open>
  C8, amended. The command line serves two operations, chosen by the first argument, and
  attempts nothing for any other argument. \<open>plot\<close> writes the schemata of the graph
  and moves \<open>preproc.dot\<close> and \<open>preproc_detailed.dot\<close> into the \<open>dot\<close> directory
  and their \<open>.png\<close> images into the \<open>fig\<close> directory; its exit status is 0 exactly
  when these five calls succeed. \<open>run\<close> executes the workflow and then deletes the
  report directory \<open>preproc\<close>; when the execution raises nothing catches the
  exception, the directory is not deleted and the exit status is 1. The script never
  looks at the result of the run: for a \<open>run\<close> invocation in which some instance ends
  FAILED the exit status is non-zero provided the engine's run raises for a failed
  instance.
\<close>

theorem main_operations:
  "(fst (main w argv) \<noteq> [] \<longrightarrow>
      length argv > 1 \<and> (argv ! 1 = ''plot'' \<or> argv ! 1 = ''run'')) \<and>
   (list_all (effect_succeeds w)
      [Write_graph ''preproc'' ''orig'',
       Rename ''preproc.dot'' ''/home/brain/bart/fmri-repro/dot/preproc.dot'',
       Rename ''preproc_detailed.dot'' ''/home/brain/bart/fmri-repro/dot/preproc_detailed.dot'',
       Rename ''preproc.dot.png'' ''/home/brain/bart/fmri-repro/fig/preproc.dot.png'',
       Rename ''preproc_detailed.dot.png''
         ''/home/brain/bart/fmri-repro/fig/preproc_detailed.dot.png''] \<longrightarrow>
      main w (prog # ''plot'' # rest) =
        ([Write_graph ''preproc'' ''orig'',
          Rename ''preproc.dot'' ''/home/brain/bart/fmri-repro/dot/preproc.dot'',
          Rename ''preproc_detailed.dot'' ''/home/brain/bart/fmri-repro/dot/preproc_detailed.dot'',
          Rename ''preproc.dot.png'' ''/home/brain/bart/fmri-repro/fig/preproc.dot.png'',
          Rename ''preproc_detailed.dot.png''
            ''/home/brain/bart/fmri-repro/fig/preproc_detailed.dot.png''], 0)) \<and>
   (snd (main w (prog # ''plot'' # rest)) = 0) =
     list_all (effect_succeeds w)
      [Write_graph ''preproc'' ''orig'',
       Rename ''preproc.dot'' ''/home/brain/bart/fmri-repro/dot/preproc.dot'',
       Rename ''preproc_detailed.dot'' ''/home/brain/bart/fmri-repro/dot/preproc_detailed.dot'',
       Rename ''preproc.dot.png'' ''/home/brain/bart/fmri-repro/fig/preproc.dot.png'',
       Rename ''preproc_detailed.dot.png''
         ''/home/brain/bart/fmri-repro/fig/preproc_detailed.dot.png''] \<and>
   main w (prog # ''run'' # rest) =
     (if effect_succeeds w Run_workflow
      then ([Run_workflow, Rmtree ''preproc''],
            if effect_succeeds w (Rmtree ''preproc'') then 0 else 1)
      else ([Run_workflow], 1)) \<and>
   ((list_ex is_failed (run_result w) \<longrightarrow> \<not> effect_succeeds w Run_workflow) \<and>
    list_ex is_failed (run_result w) \<longrightarrow>
      main w (prog # ''run'' # rest) = ([Run_workflow], 1))"
proof (intro conjI impI)
  assume "fst (main w argv) \<noteq> []"
  then show "length argv > 1"
    by (auto simp add: main_def split: if_splits)
next
  assume "fst (main w argv) \<noteq> []"
  then show "argv ! 1 = ''plot'' \<or> argv ! 1 = ''run''"
    by (auto simp add: main_def split: if_splits)
next
  assume "list_all (effect_succeeds w)
      [Write_graph ''preproc'' ''orig'',
       Rename ''preproc.dot'' ''/home/brain/bart/fmri-repro/dot/preproc.dot'',
       Rename ''preproc_detailed.dot'' ''/home/brain/bart/fmri-repro/dot/preproc_detailed.dot'',
       Rename ''preproc.dot.png'' ''/home/brain/bart/fmri-repro/fig/preproc.dot.png'',
       Rename ''preproc_detailed.dot.png''
         ''/home/brain/bart/fmri-repro/fig/preproc_detailed.dot.png'']"
  then have "perform (effect_succeeds w) make_schemata = (make_schemata, 0)"
    unfolding schemata_paths by (rule perform_all)
  then show "main w (prog # ''plot'' # rest) =
        ([Write_graph ''preproc'' ''orig'',
          Rename ''preproc.dot'' ''/home/brain/bart/fmri-repro/dot/preproc.dot'',
          Rename ''preproc_detailed.dot'' ''/home/brain/bart/fmri-repro/dot/preproc_detailed.dot'',
          Rename ''preproc.dot.png'' ''/home/brain/bart/fmri-repro/fig/preproc.dot.png'',
          Rename ''preproc_detailed.dot.png''
            ''/home/brain/bart/fmri-repro/fig/preproc_detailed.dot.png''], 0)"
    unfolding main_plot schemata_paths .
next
  show "(snd (main w (prog # ''plot'' # rest)) = 0) =
     list_all (effect_succeeds w)
      [Write_graph ''preproc'' ''orig'',
       Rename ''preproc.dot'' ''/home/brain/bart/fmri-repro/dot/preproc.dot'',
       Rename ''preproc_detailed.dot'' ''/home/brain/bart/fmri-repro/dot/preproc_detailed.dot'',
       Rename ''preproc.dot.png'' ''/home/brain/bart/fmri-repro/fig/preproc.dot.png'',
       Rename ''preproc_detailed.dot.png''
         ''/home/brain/bart/fmri-repro/fig/preproc_detailed.dot.png'']"
    unfolding main_plot perform_status schemata_paths ..
next
  show "main w (prog # ''run'' # rest) =
     (if effect_succeeds w Run_workflow
      then ([Run_workflow, Rmtree ''preproc''],
            if effect_succeeds w (Rmtree ''preproc'') then 0 else 1)
      else ([Run_workflow], 1))"
    by (simp add: main_run run_preproc_def)
next
  assume "(list_ex is_failed (run_result w) \<longrightarrow> \<not> effect_succeeds w Run_workflow) \<and>
    list_ex is_failed (run_result w)"
  then have "\<not> effect_succeeds w Run_workflow"
    by blast
  then show "main w (prog # ''run'' # rest) = ([Run_workflow], 1)"
    by (simp add: main_run run_preproc_def)
qed

theorem main_operations_witness:
  "fst (main calm [''preproc.py'', ''plot'']) \<noteq> [] \<and>
   length [''preproc.py'', ''plot''] > 1 \<and>
   [''preproc.py'', ''plot''] ! 1 = ''plot'' \<and>
   list_all (effect_succeeds calm)
      [Write_graph ''preproc'' ''orig'',
       Rename ''preproc.dot'' ''/home/brain/bart/fmri-repro/dot/preproc.dot'',
       Rename ''preproc_detailed.dot'' ''/home/brain/bart/fmri-repro/dot/preproc_detailed.dot'',
       Rename ''preproc.dot.png'' ''/home/brain/bart/fmri-repro/fig/preproc.dot.png'',
       Rename ''preproc_detailed.dot.png''
         ''/home/brain/bart/fmri-repro/fig/preproc_detailed.dot.png''] \<and>
   main calm [''preproc.py'', ''plot''] =
     ([Write_graph ''preproc'' ''orig'',
       Rename ''preproc.dot'' ''/home/brain/bart/fmri-repro/dot/preproc.dot'',
       Rename ''preproc_detailed.dot'' ''/home/brain/bart/fmri-repro/dot/preproc_detailed.dot'',
       Rename ''preproc.dot.png'' ''/home/brain/bart/fmri-repro/fig/preproc.dot.png'',
       Rename ''preproc_detailed.dot.png''
         ''/home/brain/bart/fmri-repro/fig/preproc_detailed.dot.png''], 0) \<and>
   main calm [''preproc.py'', ''run''] = ([Run_workflow, Rmtree ''preproc''], 0) \<and>
   list_ex is_failed (run_result failed_raising) \<and>
   \<not> effect_succeeds failed_raising Run_workflow \<and>
   main failed_raising [''preproc.py'', ''run''] = ([Run_workflow], 1)"
proof -
  have ok: "list_all (effect_succeeds calm)
      [Write_graph ''preproc'' ''orig'',
       Rename ''preproc.dot'' ''/home/brain/bart/fmri-repro/dot/preproc.dot'',
       Rename ''preproc_detailed.dot'' ''/home/brain/bart/fmri-repro/dot/preproc_detailed.dot'',
       Rename ''preproc.dot.png'' ''/home/brain/bart/fmri-repro/fig/preproc.dot.png'',
       Rename ''preproc_detailed.dot.png''
         ''/home/brain/bart/fmri-repro/fig/preproc_detailed.dot.png'']"
    by (simp add: calm_def)
  have failed: "list_ex is_failed (run_result failed_raising)"
    by (simp add: failed_raising_def)
  have raises: "\<not> effect_succeeds failed_raising Run_workflow"
    by (simp add: failed_raising_def)
  note plot = main_operations [of calm "[''preproc.py'', ''plot'']" "''preproc.py''" "[]"]
  note run = main_operations [of failed_raising "[''preproc.py'', ''run'']" "''preproc.py''" "[]"]
  from plot ok have trace: "main calm [''preproc.py'', ''plot''] =
     ([Write_graph ''preproc'' ''orig'',
       Rename ''preproc.dot'' ''/home/brain/bart/fmri-repro/dot/preproc.dot'',
       Rename ''preproc_detailed.dot'' ''/home/brain/bart/fmri-repro/dot/preproc_detailed.dot'',
       Rename ''preproc.dot.png'' ''/home/brain/bart/fmri-repro/fig/preproc.dot.png'',
       Rename ''preproc_detailed.dot.png''
         ''/home/brain/bart/fmri-repro/fig/preproc_detailed.dot.png''], 0)"
    by blast
  from plot have "main calm [''preproc.py'', ''run''] = ([Run_workflow, Rmtree ''preproc''], 0)"
    by (simp add: calm_def)
  moreover from run failed raises
  have "main failed_raising [''preproc.py'', ''run''] = ([Run_workflow], 1)"
    by blast
  ultimately show ?thesis
    using ok failed raises trace by simp
qed

lemma statements_connections:
  "concat (map (\<lambda>s. case s of Connect c \<Rightarrow> [c] | _ \<Rightarrow> []) preproc_statements) =
     preproc_connections"
  by (simp add: preproc_statements_def preproc_connections_def)



lemma script_dies_building:
  "script no_datadir [''preproc.py'', ''run''] =
     \<lparr>graph = [], iterables = [(''subject_id'', [])], effects = [], exit_status = 1\<rparr>"
  by (simp add: script_def no_datadir_def preproc_statements_def infosource_iterables_def
      subjects_def subjdirs_def glob_sub_def)



section \<open>Properties of the graph\<close>

lemma ranked_acyclic:
  fixes rank :: "'a \<Rightarrow> nat"
  assumes "list_all (\<lambda>e. rank (fst e) < rank (snd e)) es"
  shows "acyclic (set es)"
proof -
  have "set es \<subseteq> measure rank"
    using assms by (auto simp add: list_all_iff)
  moreover have "wf (measure rank)"
    by simp
  ultimately have "wf (set es)"
    by (rule wf_subset [rotated])
  then show ?thesis
    by (rule wf_acyclic)
qed

lemma topological_acyclic:
  assumes "is_topological_order es ns order"
  shows "acyclic (set es)"
  using assms ranked_acyclic [of "position order" es]
  by (simp add: is_topological_order_def)

lemma preproc_edges:
  "map edge preproc_connections =
    [(Infosource, Datasource), (Datasource, Img2float), (Img2float, Extract_ref),
     (Img2float, Motion_correct), (Extract_ref, Motion_correct), (Datasource, Skull_strip),
     (Extract_ref, Coregister), (Skull_strip, Coregister), (Coregister, Normalize_affine),
     (Coregister, Normalize_warp), (Normalize_affine, Normalize_warp),
     (Motion_correct, Apply_warp), (Normalize_affine, Apply_warp),
     (Normalize_warp, Apply_warp), (Apply_warp, Smooth), (Infosource, Datasink),
     (Smooth, Datasink), (Normalize_warp, Datasink)]"
  by (simp add: preproc_connections_def conn_def edge_def)

lemma preproc_nodes:
  "graph_nodes preproc_connections =
    [Img2float, Datasource, Extract_ref, Skull_strip, Coregister, Motion_correct,
     Normalize_affine, Apply_warp, Infosource, Smooth, Normalize_warp, Datasink]"
  by (simp add: preproc_connections_def conn_def graph_nodes_def)

lemma preproc_validates:
  "topological_order (map edge preproc_connections) (graph_nodes preproc_connections) =
     Inr [Infosource, Datasource, Img2float, Extract_ref, Skull_strip, Coregister,
          Motion_correct, Normalize_affine, Normalize_warp, Apply_warp, Smooth, Datasink]"
  unfolding preproc_edges preproc_nodes
  by (simp add: topological_order.simps ready_def has_producer_def)

text \<open>
  C1. The graph the script builds with its eighteen \<open>connect\<close> calls is acyclic: the
  edge relation on the nodes has no cycle, it admits a topological order, and the
  validation of acyclicity succeeds with that order instead of \<open>CycleDetectedError\<close>.
\<close>

theorem preproc_acyclic:
  "length preproc_connections = 18 \<and>
   acyclic (set (map edge preproc_connections)) \<and>
   is_topological_order (map edge preproc_connections) (graph_nodes preproc_connections)
     [Infosource, Datasource, Img2float, Extract_ref, Skull_strip, Coregister,
      Motion_correct, Normalize_affine, Normalize_warp, Apply_warp, Smooth, Datasink] \<and>
   validate_acyclic preproc_connections =
     Inr [Infosource, Datasource, Img2float, Extract_ref, Skull_strip, Coregister,
          Motion_correct, Normalize_affine, Normalize_warp, Apply_warp, Smooth, Datasink]"
proof -
  have order: "is_topological_order (map edge preproc_connections)
      (graph_nodes preproc_connections)
      [Infosource, Datasource, Img2float, Extract_ref, Skull_strip, Coregister,
       Motion_correct, Normalize_affine, Normalize_warp, Apply_warp, Smooth, Datasink]"
    unfolding preproc_edges preproc_nodes
    by (simp add: is_topological_order_def) auto
  have "length preproc_connections = 18"
    by (simp add: preproc_connections_def)
  moreover have "acyclic (set (map edge preproc_connections))"
    using order by (rule topological_acyclic)
  moreover have "validate_acyclic preproc_connections =
      Inr [Infosource, Datasource, Img2float, Extract_ref, Skull_strip, Coregister,
           Motion_correct, Normalize_affine, Normalize_warp, Apply_warp, Smooth, Datasink]"
    unfolding validate_acyclic_def preproc_validates by simp
  ultimately show ?thesis
    using order by simp
qed

lemma preproc_destinations:
  "map destination preproc_connections =
    [(Datasource, ''subject_id''), (Img2float, ''in_file''), (Extract_ref, ''in_file''),
     (Motion_correct, ''in_file''), (Motion_correct, ''ref_file''), (Skull_strip, ''in_file''),
     (Coregister, ''reference''), (Coregister, ''in_file''), (Normalize_affine, ''in_file''),
     (Normalize_warp, ''in_file''), (Normalize_warp, ''affine_file''),
     (Apply_warp, ''in_file''), (Apply_warp, ''premat''), (Apply_warp, ''field_file''),
     (Smooth, ''in_file''), (Datasink, ''container''), (Datasink, ''smooth_func''),
     (Datasink, ''norm_anat'')]"
  by (simp add: preproc_connections_def conn_def destination_def)

lemma preproc_destinations_distinct: "distinct (map destination preproc_connections)"
  unfolding preproc_destinations by simp

lemma connect_cases:
  assumes "destination c \<notin> set (map destination g)"
  shows "connect outs ins g c = Inr (g @ [c]) \<or>
         (\<exists>n p. connect outs ins g c = Inl (UnknownPortError n p))"
  using assms by (simp add: connect_def)

lemma connect_all_never_duplicate:
  assumes "distinct (map destination cs)"
    and "set (map destination cs) \<inter> set (map destination g) = {}"
  shows "\<not> is_duplicate_input_error (connect_all outs ins g cs)"
  using assms
proof (induction cs arbitrary: g)
  case Nil
  show ?case by simp
next
  case (Cons c cs)
  from Cons.prems have fresh: "destination c \<notin> set (map destination g)"
    by auto
  from connect_cases [OF fresh, of outs ins] show ?case
  proof
    assume added: "connect outs ins g c = Inr (g @ [c])"
    from Cons.prems have "distinct (map destination cs)"
      and "set (map destination cs) \<inter> set (map destination (g @ [c])) = {}"
      by auto
    then have "\<not> is_duplicate_input_error (connect_all outs ins (g @ [c]) cs)"
      by (rule Cons.IH)
    with added show ?thesis by simp
  next
    assume "\<exists>n p. connect outs ins g c = Inl (UnknownPortError n p)"
    then show ?thesis by auto
  qed
qed

lemma connect_all_declared:
  assumes "distinct (map destination cs)"
    and "set (map destination cs) \<inter> set (map destination g) = {}"
  shows "connect_all declared declared g cs = Inr (g @ cs)"
  using assms
proof (induction cs arbitrary: g)
  case Nil
  show ?case by simp
next
  case (Cons c cs)
  from Cons.prems have fresh: "destination c \<notin> set (map destination g)"
    by auto
  then have added: "connect declared declared g c = Inr (g @ [c])"
    by (simp add: connect_def declared_def)
  from Cons.prems have "distinct (map destination cs)"
    and "set (map destination cs) \<inter> set (map destination (g @ [c])) = {}"
    by auto
  then have "connect_all declared declared (g @ [c]) cs = Inr ((g @ [c]) @ cs)"
    by (rule Cons.IH)
  with added show ?case by simp
qed

text \<open>
  C2. No two of the script's \<open>connect\<close> calls name the same destination node and
  port: every destination port that is connected has exactly one producing edge, no call
  fails with \<open>DuplicateInputError\<close> whatever ports the nodes declare, and when the
  ports named are declared the eighteen calls build exactly the eighteen edges.
\<close>

theorem preproc_single_producer:
  "distinct (map destination preproc_connections) \<and>
   list_all (\<lambda>c. length (filter (\<lambda>c'. destination c' = destination c) preproc_connections) = 1)
     preproc_connections \<and>
   \<not> is_duplicate_input_error (connect_all outs ins [] preproc_connections) \<and>
   connect_all declared declared [] preproc_connections = Inr preproc_connections"
proof -
  note d = preproc_destinations_distinct
  have one: "length (filter (\<lambda>c'. destination c' = destination c) cs) = 1"
    if "distinct (map destination cs)" and "c \<in> set cs" for c :: connection and cs
    using that
  proof (induction cs)
    case Nil
    then show ?case by simp
  next
    case (Cons a cs)
    show ?case
    proof (cases "a = c")
      case True
      with Cons.prems have "destination c \<notin> destination ` set cs"
        by simp
      then have "filter (\<lambda>c'. destination c' = destination c) cs = []"
        unfolding filter_empty_conv by (metis imageI)
      with True show ?thesis by simp
    next
      case False
      with Cons.prems have "c \<in> set cs" and "destination a \<noteq> destination c"
        by auto
      with Cons show ?thesis by simp
    qed
  qed
  have "list_all (\<lambda>c. length (filter (\<lambda>c'. destination c' = destination c)
      preproc_connections) = 1) preproc_connections"
    using one [OF d] by (simp add: list_all_iff)
  moreover have "\<not> is_duplicate_input_error (connect_all outs ins [] preproc_connections)"
    using d by (rule connect_all_never_duplicate) simp
  moreover have "connect_all declared declared [] preproc_connections = Inr preproc_connections"
    using connect_all_declared [OF d, of "[]"] by simp
  ultimately show ?thesis
    using d by simp
qed

end
